theory Spec2Isabelle
  imports Main
begin

section \<open>JavaScript values\<close>

text \<open>
  The widget handles the server's response as untyped values (\<open>item: any\<close>,
  \<open>items: any[]\<close>), so the model keeps them as JavaScript values with JavaScript's
  truthiness and property reads. An object is its property table. Numbers are integers
  (a primary key is one); the widget only ever tests a number for being zero.
\<close>

datatype jsval =
    JUndefined
  | JNull
  | JBool bool
  | JNum int
  | JStr string
  | JArr "jsval list"
  | JObj "(string \<times> jsval) list"

datatype error = TypeError | RequestFailed

text \<open>\<open>!v\<close> is \<open>\<not> truthy v\<close>.\<close>

fun truthy :: "jsval \<Rightarrow> bool" where
  "truthy JUndefined = False"
| "truthy JNull = False"
| "truthy (JBool b) = b"
| "truthy (JNum n) = (n \<noteq> 0)"
| "truthy (JStr s) = (s \<noteq> [])"
| "truthy (JArr xs) = True"
| "truthy (JObj fs) = True"

fun nullish :: "jsval \<Rightarrow> bool" where
  "nullish JUndefined = True"
| "nullish JNull = True"
| "nullish v = False"

text \<open>Reading a property of a value that is neither \<open>null\<close> nor \<open>undefined\<close>.\<close>

fun property :: "jsval \<Rightarrow> string \<Rightarrow> jsval" where
  "property (JObj fs) name = (case map_of fs name of None \<Rightarrow> JUndefined | Some v \<Rightarrow> v)"
| "property (JArr xs) name = (if name = ''length'' then JNum (int (length xs)) else JUndefined)"
| "property (JStr s) name = (if name = ''length'' then JNum (int (length s)) else JUndefined)"
| "property v name = JUndefined"

text \<open>\<open>v.name\<close>: a TypeError on \<open>null\<close> and \<open>undefined\<close>.\<close>

definition get_prop :: "jsval \<Rightarrow> string \<Rightarrow> error + jsval" where
  "get_prop v name = (if nullish v then Inl TypeError else Inr (property v name))"

text \<open>\<open>v?.name\<close>: \<open>undefined\<close> on \<open>null\<close> and \<open>undefined\<close>.\<close>

definition opt_prop :: "jsval \<Rightarrow> string \<Rightarrow> jsval" where
  "opt_prop v name = (if nullish v then JUndefined else property v name)"

text \<open>\<open>a ?? b\<close> and \<open>a || b\<close>.\<close>

definition nullish_or :: "jsval \<Rightarrow> jsval \<Rightarrow> jsval" where
  "nullish_or a b = (if nullish a then b else a)"

definition js_or :: "jsval \<Rightarrow> jsval \<Rightarrow> jsval" where
  "js_or a b = (if truthy a then a else b)"

section \<open>The host, the data-fetching library and the rendered tree\<close>

text \<open>
  \<open>ModelType\<close>, \<open>getDetailUrl\<close>, \<open>context.renderInstance\<close>, \<open>context.navigate\<close>,
  the form factory \<open>context.forms.stockActions.countStock\<close>, the query client and
  \<open>useQuery\<close> belong to the host application and to its libraries. What they return is
  kept symbolic (\<open>getDetailUrl\<close>, \<open>Instance\<close>, \<open>Modal\<close>), and each call with an effect
  is appended to the world's list of calls.
\<close>

datatype model_type = stockitem | stocklocation

datatype url = getDetailUrl model_type jsval

datatype instance_props =
  InstanceProps (props_instance: jsval) (props_model: model_type) (props_extra: jsval)

text \<open>The closure passed to the form factory as \<open>refresh\<close> (lines 106 to 108).\<close>

datatype callback = refresh

datatype form_props =
  FormProps (form_items: jsval) (form_model: model_type) (form_refresh: callback)

text \<open>
  Event handlers: the closure \<open>navigateToItem\<close> of one row, the header's
  \<open>() => itemQuery.refetch()\<close>, and \<open>countStockForm.open\<close> of the form the host
  built from the given props.
\<close>

datatype handler = NavigateToItem jsval | Refetch | FormOpen form_props

datatype host_call =
    navigate url
  | countStock form_props
  | api_get string
  | invalidateQueries "string list"
  | query_refetch
  | form_open form_props

datatype attr = AStr string | ANum int | AMsg string | AIcon string | AHandler handler

text \<open>
  A JSX element is its tag, its attributes and its children. \<open>Msg\<close> is a translated
  message (\<open>t`...`\<close>), \<open>Expr\<close> a value put in as a child, \<open>Instance\<close> what
  \<open>context.renderInstance\<close> returned for the given props, \<open>Modal\<close> the \<open>modal\<close> of the
  count-stock form, \<open>Keyed\<close> an element with a React key. A child that is \<open>false\<close>
  (a condition \<open>c && <X />\<close> that fails) renders nothing and is left out.
\<close>

datatype element =
    El string "(string \<times> attr) list" "element list"
  | Msg string
  | Expr jsval
  | Instance instance_props
  | Modal form_props
  | Keyed jsval element

text \<open>The part of \<open>useQuery\<close>'s result the widget reads.\<close>

record query_result =
  isLoading :: bool
  isFetching :: bool
  isError :: bool
  isSuccess :: bool
  data :: jsval

record query_options =
  enabled :: bool
  queryKey :: "string list"

text \<open>
  The plugin context: \<open>context.api\<close> may be missing (the code reads it with \<open>?.\<close>),
  and its \<open>get\<close> resolves to a response or rejects.
\<close>

record plugin_context =
  api :: "(string \<Rightarrow> error + jsval) option"
  primaryColor :: string

record world =
  itemQuery :: query_result
  calls :: "host_call list"

definition call :: "host_call \<Rightarrow> world \<Rightarrow> world" where
  "call c w = w\<lparr>calls := calls w @ [c]\<rparr>"

section \<open>Dashboard.tsx\<close>

definition NEXT_ITEM_URL :: string where
  "NEXT_ITEM_URL = ''/plugin/rolling-stocktake/next/''"

subsection \<open>RenderStockItem\<close>

text \<open>
  Line 44 reads \<open>item.pk\<close> only after \<open>item?.pk\<close> was truthy, so \<open>item\<close> is neither
  \<open>null\<close> nor \<open>undefined\<close> there and the read cannot raise.
\<close>

definition navigateToItem :: "jsval \<Rightarrow> world \<Rightarrow> world" where
  "navigateToItem item w =
     (if truthy (opt_prop item ''pk'')
      then call (navigate (getDetailUrl stockitem (property item ''pk''))) w
      else w)"

definition RenderStockItem :: "plugin_context \<Rightarrow> jsval \<Rightarrow> error + element" where
  "RenderStockItem ctx item =
     (case get_prop item ''location_detail'' of
        Inl e \<Rightarrow> Inl e
      | Inr location_detail \<Rightarrow>
     (case get_prop item ''stocktake_date'' of
        Inl e \<Rightarrow> Inl e
      | Inr stocktake_date \<Rightarrow>
          Inr (El ''Table.Tr'' []
            [El ''Table.Td'' []
               [Instance (InstanceProps item stockitem JUndefined)],
             El ''Table.Td'' []
               [if truthy location_detail
                then Instance (InstanceProps location_detail stocklocation
                       (JObj [(''show_location'', JBool False)]))
                else El ''Text'' [(''size'', AStr ''sm''), (''c'', AStr ''dimmed'')]
                       [Msg ''No location'']],
             El ''Table.Td'' []
               [if truthy stocktake_date
                then El ''Text'' [(''size'', AStr ''sm'')] [Expr stocktake_date]
                else El ''Text'' [(''c'', AStr ''red''), (''size'', AStr ''sm'')]
                       [Msg ''Never'']],
             El ''Table.Td'' []
               [El ''Group'' [(''gap'', AStr ''xs'')]
                  [El ''ActionIcon''
                     [(''color'', AStr ''blue''), (''variant'', AStr ''light''),
                      (''onClick'', AHandler (NavigateToItem item)),
                      (''title'', AMsg ''View Item'')]
                     [El ''IconEye'' [(''size'', ANum 16)] []]]]])))"

subsection \<open>RenderStockItems\<close>

text \<open>
  \<open>items.map((item) => <RenderStockItem key={item.pk} ... />)\<close>: the key reads
  \<open>item.pk\<close>, then the row is rendered; the first exception ends the render.
\<close>

fun render_rows :: "plugin_context \<Rightarrow> jsval list \<Rightarrow> error + element list" where
  "render_rows ctx [] = Inr []"
| "render_rows ctx (item # rest) =
     (case get_prop item ''pk'' of
        Inl e \<Rightarrow> Inl e
      | Inr key \<Rightarrow>
     (case RenderStockItem ctx item of
        Inl e \<Rightarrow> Inl e
      | Inr row \<Rightarrow>
     (case render_rows ctx rest of
        Inl e \<Rightarrow> Inl e
      | Inr rows \<Rightarrow> Inr (Keyed key row # rows))))"

definition run_callback :: "callback \<Rightarrow> world \<Rightarrow> world" where
  "run_callback cb w = (case cb of refresh \<Rightarrow> call (invalidateQueries [''next-item'']) w)"

definition empty_alert :: element where
  "empty_alert =
     El ''Alert''
       [(''color'', AStr ''green''), (''title'', AMsg ''All up to date!''),
        (''icon'', AIcon ''IconCircleCheck'')]
       [El ''Text'' [(''size'', AStr ''sm'')]
          [Msg ''Nice work, you have counted enough items today.'']]"

definition items_table :: "form_props \<Rightarrow> element list \<Rightarrow> element" where
  "items_table countStockForm rows =
     El ''Stack'' [(''gap'', AStr ''xs'')]
       [Modal countStockForm,
        El ''Table'' []
          [El ''Table.Thead'' []
             [El ''Table.Tr'' []
                [El ''Table.Th'' [] [Msg ''Stock Item''],
                 El ''Table.Th'' [] [Msg ''Location''],
                 El ''Table.Th'' [] [Msg ''Last Stocktake''],
                 El ''Table.Th'' [] [Msg ''Actions'']]],
           El ''Table.Tbody'' [] rows],
        El ''Divider'' [] [],
        El ''Group'' [(''grow'', AStr ''true'')]
          [El ''Button''
             [(''color'', AStr ''green''), (''variant'', AStr ''filled''),
              (''leftSection'', AIcon ''IconClipboardCheck''),
              (''onClick'', AHandler (FormOpen countStockForm))]
             [Msg ''Count Stock'']]]"

text \<open>
  The form factory is called first, with \<open>items || []\<close>. \<open>items.length\<close> is read only
  when \<open>items\<close> is truthy, and \<open>items.map\<close> is a function only on an array.
\<close>

definition RenderStockItems ::
  "plugin_context \<Rightarrow> jsval \<Rightarrow> world \<Rightarrow> (error + element) \<times> world" where
  "RenderStockItems ctx items w =
     (let countStockForm = FormProps (js_or items (JArr [])) stockitem refresh;
          w' = call (countStock countStockForm) w
      in if \<not> truthy items \<or> property items ''length'' = JNum 0
         then (Inr empty_alert, w')
         else (case items of
                 JArr xs \<Rightarrow>
                   (case render_rows ctx xs of
                      Inl e \<Rightarrow> (Inl e, w')
                    | Inr rows \<Rightarrow> (Inr (items_table countStockForm rows), w'))
               | _ \<Rightarrow> (Inl TypeError, w')))"

subsection \<open>RollingStocktakeDashboardItem\<close>

definition itemQuery_options :: query_options where
  "itemQuery_options = \<lparr>enabled = True, queryKey = [''next-item'']\<rparr>"

text \<open>
  \<open>queryFn\<close>: with no \<open>context.api\<close> the response is \<open>undefined\<close> and
  \<open>response.data\<close> raises; a rejected request is the query's error.
\<close>

definition queryFn :: "plugin_context \<Rightarrow> world \<Rightarrow> (error + jsval) \<times> world" where
  "queryFn ctx w =
     (case api ctx of
        None \<Rightarrow> (get_prop JUndefined ''data'', w)
      | Some get \<Rightarrow>
          (case get NEXT_ITEM_URL of
             Inl e \<Rightarrow> (Inl e, call (api_get NEXT_ITEM_URL) w)
           | Inr response \<Rightarrow> (get_prop response ''data'', call (api_get NEXT_ITEM_URL) w)))"

definition stockItems :: "query_result \<Rightarrow> jsval" where
  "stockItems q = nullish_or (opt_prop (data q) ''items'') (JArr [])"

definition header :: "plugin_context \<Rightarrow> element list" where
  "header ctx =
     [El ''Group'' [(''justify'', AStr ''space-between'')]
        [El ''Title'' [(''c'', AStr (primaryColor ctx)), (''order'', ANum 4)]
           [Msg ''Rolling Stocktake''],
         El ''ActionIcon'' [(''variant'', AStr ''transparent''), (''onClick'', AHandler Refetch)]
           [El ''IconRefresh'' [] []]],
      El ''Divider'' [] []]"

definition loader :: element where
  "loader = El ''Loader'' [(''size'', AStr ''sm'')] []"

definition error_alert :: element where
  "error_alert =
     El ''Alert'' [(''color'', AStr ''red''), (''title'', AStr ''Error'')]
       [El ''Text'' [(''size'', AStr ''sm'')]
          [Msg ''Error loading stock information from server.'']]"

definition RollingStocktakeDashboardItem ::
  "plugin_context \<Rightarrow> world \<Rightarrow> (error + element) \<times> world" where
  "RollingStocktakeDashboardItem ctx w =
     (let q = itemQuery w;
          top = header ctx
            @ (if isLoading q \<or> isFetching q then [loader] else [])
            @ (if \<not> isLoading q \<and> \<not> isFetching q \<and> isError q then [error_alert] else [])
      in if \<not> isLoading q \<and> isSuccess q
         then (case RenderStockItems ctx (stockItems q) w of
                 (Inl e, w') \<Rightarrow> (Inl e, w')
               | (Inr body, w') \<Rightarrow> (Inr (El ''Stack'' [(''gap'', AStr ''xs'')] (top @ [body])), w'))
         else (Inr (El ''Stack'' [(''gap'', AStr ''xs'')] top), w))"

subsection \<open>Events\<close>

fun run_handler :: "handler \<Rightarrow> world \<Rightarrow> world" where
  "run_handler (NavigateToItem item) w = navigateToItem item w"
| "run_handler Refetch w = call query_refetch w"
| "run_handler (FormOpen countStockForm) w = call (form_open countStockForm) w"

text \<open>
  What can happen to the widget: React renders it, the user clicks an element, the host
  calls a callback it was given, the data-fetching library runs \<open>queryFn\<close>.
\<close>

datatype operation = Render | Click handler | HostCallback callback | RunQueryFn

fun exec :: "plugin_context \<Rightarrow> operation \<Rightarrow> world \<Rightarrow> world" where
  "exec ctx Render w = snd (RollingStocktakeDashboardItem ctx w)"
| "exec ctx (Click h) w = run_handler h w"
| "exec ctx (HostCallback cb) w = run_callback cb w"
| "exec ctx RunQueryFn w = snd (queryFn ctx w)"

section \<open>Reading the rendered tree\<close>

fun has_tag :: "string \<Rightarrow> element \<Rightarrow> bool" where
  "has_tag t (El tag attrs kids) = (tag = t \<or> list_ex (has_tag t) kids)"
| "has_tag t (Keyed k e) = has_tag t e"
| "has_tag t e = False"

fun children :: "element \<Rightarrow> element list" where
  "children (El tag attrs kids) = kids"
| "children (Keyed k e) = children e"
| "children e = []"

fun tag_of :: "element \<Rightarrow> string" where
  "tag_of (El tag attrs kids) = tag"
| "tag_of (Keyed k e) = tag_of e"
| "tag_of e = []"

fun attrs_of :: "element \<Rightarrow> (string \<times> attr) list" where
  "attrs_of (El tag attrs kids) = attrs"
| "attrs_of (Keyed k e) = attrs_of e"
| "attrs_of e = []"

text \<open>The click handlers of a tree, and the calls of \<open>context.renderInstance\<close> in it.\<close>

fun handlers :: "element \<Rightarrow> handler list" where
  "handlers (El tag attrs kids) =
     (case map_of attrs ''onClick'' of Some (AHandler h) \<Rightarrow> [h] | _ \<Rightarrow> [])
       @ concat (map handlers kids)"
| "handlers (Keyed k e) = handlers e"
| "handlers e = []"

fun instances :: "element \<Rightarrow> instance_props list" where
  "instances (El tag attrs kids) = concat (map instances kids)"
| "instances (Keyed k e) = instances e"
| "instances (Instance p) = [p]"
| "instances e = []"

text \<open>The four states of the widget, as they show among the children of its root.\<close>

datatype view = LoadingIndicator | ErrorAlert | SuccessEmptyAlert | ItemsTable

definition view_of :: "element \<Rightarrow> view option" where
  "view_of e =
     (if tag_of e = ''Loader'' then Some LoadingIndicator
      else if tag_of e = ''Alert'' \<and> map_of (attrs_of e) ''color'' = Some (AStr ''red'')
        then Some ErrorAlert
      else if tag_of e = ''Alert'' \<and> map_of (attrs_of e) ''title'' = Some (AMsg ''All up to date!'')
        then Some SuccessEmptyAlert
      else if tag_of e = ''Stack'' \<and> has_tag ''Table'' e \<and> has_tag ''Button'' e
        then Some ItemsTable
      else None)"

definition views :: "element \<Rightarrow> view list" where
  "views e = List.map_filter view_of (children e)"

text \<open>What a render shows: nothing when it raised.\<close>

definition rendered :: "plugin_context \<Rightarrow> world \<Rightarrow> view list option" where
  "rendered ctx w =
     (case fst (RollingStocktakeDashboardItem ctx w) of
        Inl e \<Rightarrow> None
      | Inr e \<Rightarrow> Some (views e))"

text \<open>The rows of the table body, in one items view and in the whole widget.\<close>

definition table_rows :: "element \<Rightarrow> element list" where
  "table_rows e =
     concat (map children
       (filter (\<lambda>b. tag_of b = ''Table.Tbody'')
          (concat (map children (filter (\<lambda>t. tag_of t = ''Table'') (children e))))))"

definition dashboard_rows :: "element \<Rightarrow> element list" where
  "dashboard_rows root = concat (map table_rows (children root))"

text \<open>The content of the \<open>n\<close>-th cell of a row, counted from 0.\<close>

definition cell :: "nat \<Rightarrow> element \<Rightarrow> element list" where
  "cell n row = (if n < length (children row) then children (children row ! n) else [])"

text \<open>The URLs the widget asked \<open>context.api.get\<close> for.\<close>

definition requests :: "world \<Rightarrow> string list" where
  "requests w = concat (map (\<lambda>c. case c of api_get u \<Rightarrow> [u] | _ \<Rightarrow> []) (calls w))"

text \<open>The keys the widget asked \<open>queryClient.invalidateQueries\<close> for.\<close>

definition invalidations :: "world \<Rightarrow> string list list" where
  "invalidations w =
     concat (map (\<lambda>c. case c of invalidateQueries key \<Rightarrow> [key] | _ \<Rightarrow> []) (calls w))"

text \<open>
  The item a row of the table was rendered for (the instance its first cell hands to
  \<open>context.renderInstance\<close>), and the items the widget displays, row by row.
\<close>

fun row_item :: "element \<Rightarrow> jsval option" where
  "row_item (Keyed k (El tag attrs (El tag' attrs' (Instance p # others) # cells))) =
     Some (props_instance p)"
| "row_item e = None"

definition displayed_items :: "element \<Rightarrow> jsval option list" where
  "displayed_items root = map row_item (dashboard_rows root)"

section \<open>The query client\<close>

text \<open>
  Modelled from the spec: the query client of the data-fetching library, which is not
  part of the source. The spec has the query result as "a transient, client-cached list
  of StockItem, keyed by a fixed cache key, invalidated on count-action completion", the
  fetch as "awaited via the host's data-fetching library", and the widget as one that
  "invalidates the cached fetch to trigger a refresh" and where "any fetch error surfaces
  as a static error alert". So a fetch runs \<open>queryFn\<close> and its outcome becomes the result
  of the query: a success with the data returned, or an error.
\<close>

definition fetch_query :: "plugin_context \<Rightarrow> world \<Rightarrow> world" where
  "fetch_query ctx w =
     (case queryFn ctx w of
        (Inr d, w') \<Rightarrow>
          w'\<lparr>itemQuery := \<lparr>isLoading = False, isFetching = False, isError = False,
                 isSuccess = True, data = d\<rparr>\<rparr>
      | (Inl e, w') \<Rightarrow>
          w'\<lparr>itemQuery := (itemQuery w')\<lparr>isLoading := False, isFetching := False,
                 isError := True, isSuccess := False\<rparr>\<rparr>)"

text \<open>
  Modelled from the spec: the query client's answer to \<open>invalidateQueries\<close>, not part of
  the source either. The widget "invalidates the cached fetch to trigger a refresh":
  invalidating the key the enabled query is cached under fetches it again, and any other
  key leaves it alone.
\<close>

definition invalidated :: "plugin_context \<Rightarrow> string list \<Rightarrow> world \<Rightarrow> world" where
  "invalidated ctx key w =
     (if enabled itemQuery_options \<and> key = queryKey itemQuery_options
      then fetch_query ctx w else w)"

text \<open>
  Modelled from the spec: "on bulk action completion" the host runs the \<open>refresh\<close> it was
  given with the form's props, and the query client handles the invalidations made by it.
\<close>

definition count_completed :: "plugin_context \<Rightarrow> form_props \<Rightarrow> world \<Rightarrow> world" where
  "count_completed ctx p w =
     (let w1 = run_callback (form_refresh p) w
      in fold (\<lambda>c. case c of invalidateQueries key \<Rightarrow> invalidated ctx key | _ \<Rightarrow> id)
           (drop (length (calls w)) (calls w1)) w1)"

section \<open>Basic facts\<close>

lemma calls_call: "calls (call c w) = calls w @ [c]"
  by (simp add: call_def)

lemma itemQuery_call: "itemQuery (call c w) = itemQuery w"
  by (simp add: call_def)

lemma requests_call:
  "requests (call c w) = requests w @ (case c of api_get u \<Rightarrow> [u] | _ \<Rightarrow> [])"
  by (simp add: requests_def call_def)

lemma get_prop_Inr: "\<not> nullish v \<Longrightarrow> get_prop v name = Inr (property v name)"
  by (simp add: get_prop_def)

lemma get_prop_Inl: "nullish v \<Longrightarrow> get_prop v name = Inl TypeError"
  by (simp add: get_prop_def)

lemma truthy_not_nullish: "truthy v \<Longrightarrow> \<not> nullish v"
  by (cases v) simp_all

text \<open>The guarded read of line 44 never raises.\<close>

lemma navigate_read_safe:
  "truthy (opt_prop item ''pk'') \<Longrightarrow> get_prop item ''pk'' = Inr (property item ''pk'')"
  by (cases "nullish item") (simp_all add: opt_prop_def get_prop_def)

lemma stockItems_JArr:
  "opt_prop (data q) ''items'' = JArr xs \<Longrightarrow> stockItems q = JArr xs"
  by (simp add: stockItems_def nullish_or_def)

subsection \<open>One row\<close>

lemma RenderStockItem_Inr:
  "\<not> nullish item \<Longrightarrow>
   RenderStockItem ctx item =
     Inr (El ''Table.Tr'' []
            [El ''Table.Td'' []
               [Instance (InstanceProps item stockitem JUndefined)],
             El ''Table.Td'' []
               [if truthy (property item ''location_detail'')
                then Instance (InstanceProps (property item ''location_detail'') stocklocation
                       (JObj [(''show_location'', JBool False)]))
                else El ''Text'' [(''size'', AStr ''sm''), (''c'', AStr ''dimmed'')]
                       [Msg ''No location'']],
             El ''Table.Td'' []
               [if truthy (property item ''stocktake_date'')
                then El ''Text'' [(''size'', AStr ''sm'')] [Expr (property item ''stocktake_date'')]
                else El ''Text'' [(''c'', AStr ''red''), (''size'', AStr ''sm'')]
                       [Msg ''Never'']],
             El ''Table.Td'' []
               [El ''Group'' [(''gap'', AStr ''xs'')]
                  [El ''ActionIcon''
                     [(''color'', AStr ''blue''), (''variant'', AStr ''light''),
                      (''onClick'', AHandler (NavigateToItem item)),
                      (''title'', AMsg ''View Item'')]
                     [El ''IconEye'' [(''size'', ANum 16)] []]]]])"
  by (simp add: RenderStockItem_def get_prop_Inr)

lemma RenderStockItem_total:
  "\<not> nullish item \<Longrightarrow> \<exists>row. RenderStockItem ctx item = Inr row"
  by (simp add: RenderStockItem_Inr)

text \<open>An item that is \<open>null\<close> or \<open>undefined\<close> has no row: reading its fields raises.\<close>

lemma RenderStockItem_nullish:
  "nullish item \<Longrightarrow> RenderStockItem ctx item = Inl TypeError"
  by (simp add: RenderStockItem_def get_prop_Inl)

subsection \<open>The items view\<close>

lemma render_rows_ok:
  "list_all (\<lambda>i. \<not> nullish i) xs \<Longrightarrow>
   \<exists>rows. render_rows ctx xs = Inr rows \<and>
     list_all2 (\<lambda>r i. \<exists>row. RenderStockItem ctx i = Inr row \<and> r = Keyed (property i ''pk'') row)
       rows xs"
proof (induction xs)
  case Nil
  then show ?case by simp
next
  case (Cons i xs)
  from Cons.prems have i: "\<not> nullish i" and rest: "list_all (\<lambda>i. \<not> nullish i) xs"
    by simp_all
  from Cons.IH [OF rest] obtain rows where
    rows: "render_rows ctx xs = Inr rows"
      "list_all2 (\<lambda>r i. \<exists>row. RenderStockItem ctx i = Inr row \<and> r = Keyed (property i ''pk'') row)
         rows xs"
    by blast
  from RenderStockItem_total [OF i] obtain row where row: "RenderStockItem ctx i = Inr row"
    by blast
  show ?case
    using rows row i by (simp add: get_prop_Inr)
qed

lemma RenderStockItems_JArr:
  "RenderStockItems ctx (JArr xs) w =
     (if xs = [] then Inr empty_alert
      else (case render_rows ctx xs of
              Inl e \<Rightarrow> Inl e
            | Inr rows \<Rightarrow> Inr (items_table (FormProps (JArr xs) stockitem refresh) rows)),
      call (countStock (FormProps (JArr xs) stockitem refresh)) w)"
  by (simp add: RenderStockItems_def js_or_def Let_def split: sum.splits)

lemma RenderStockItems_falsy:
  "\<not> truthy items \<Longrightarrow>
   RenderStockItems ctx items w =
     (Inr empty_alert, call (countStock (FormProps (JArr []) stockitem refresh)) w)"
  by (simp add: RenderStockItems_def js_or_def Let_def)

text \<open>
  A truthy value that is not an array and has no \<open>length\<close> of 0 (a number, \<open>true\<close>, a
  non-empty string, an object) has no \<open>map\<close>: the render raises. The declared type
  \<open>any[]\<close> of \<open>items\<close> leaves such values out.
\<close>

lemma RenderStockItems_not_array:
  "truthy items \<Longrightarrow> property items ''length'' \<noteq> JNum 0 \<Longrightarrow> \<forall>xs. items \<noteq> JArr xs \<Longrightarrow>
   fst (RenderStockItems ctx items w) = Inl TypeError"
  by (cases items) (simp_all add: RenderStockItems_def Let_def)

lemma RenderStockItems_snd:
  "snd (RenderStockItems ctx items w) =
     call (countStock (FormProps (js_or items (JArr [])) stockitem refresh)) w"
  by (simp add: RenderStockItems_def Let_def split: jsval.splits sum.splits)

subsection \<open>The widget\<close>

lemma view_of_loader: "view_of loader = Some LoadingIndicator"
  by (simp add: view_of_def loader_def)

lemma view_of_error_alert: "view_of error_alert = Some ErrorAlert"
  by (simp add: view_of_def error_alert_def)

lemma view_of_empty_alert: "view_of empty_alert = Some SuccessEmptyAlert"
  by (simp add: view_of_def empty_alert_def)

lemma view_of_items_table: "view_of (items_table p rows) = Some ItemsTable"
  by (simp add: view_of_def items_table_def)

lemma views_header: "List.map_filter view_of (header ctx) = []"
  by (simp add: List.map_filter_def header_def view_of_def)

lemma map_filter_append:
  "List.map_filter f (xs @ ys) = List.map_filter f xs @ List.map_filter f ys"
  by (simp add: List.map_filter_def)

lemma views_root:
  "views (El ''Stack'' as (header ctx @ rest)) = List.map_filter view_of rest"
  by (simp add: views_def map_filter_append views_header)

lemma has_tag_header:
  "\<not> list_ex (has_tag ''Table'') (header ctx)" "\<not> list_ex (has_tag ''Button'') (header ctx)"
  by (simp_all add: header_def)

text \<open>What the three conditions of lines 188 to 196 show, for any result of the query.\<close>

lemma rendered_eq:
  "rendered ctx w =
     (let q = itemQuery w;
          top = (if isLoading q \<or> isFetching q then [LoadingIndicator] else [])
            @ (if \<not> isLoading q \<and> \<not> isFetching q \<and> isError q then [ErrorAlert] else [])
      in if \<not> isLoading q \<and> isSuccess q
         then (case fst (RenderStockItems ctx (stockItems q) w) of
                 Inl e \<Rightarrow> None
               | Inr body \<Rightarrow> Some (top @ List.map_filter view_of [body]))
         else Some top)"
  by (auto simp add: rendered_def RollingStocktakeDashboardItem_def Let_def views_root
      map_filter_append view_of_loader view_of_error_alert
      split: prod.splits sum.splits)

lemma body_views:
  "list_all (\<lambda>i. \<not> nullish i) xs \<Longrightarrow>
   \<exists>body. fst (RenderStockItems ctx (JArr xs) w) = Inr body \<and>
     List.map_filter view_of [body] = [if xs = [] then SuccessEmptyAlert else ItemsTable]"
  using render_rows_ok [of xs ctx]
  by (auto simp add: RenderStockItems_JArr view_of_empty_alert view_of_items_table)

lemma dashboard_snd:
  "snd (RollingStocktakeDashboardItem ctx w) =
     (if \<not> isLoading (itemQuery w) \<and> isSuccess (itemQuery w)
      then call (countStock (FormProps (js_or (stockItems (itemQuery w)) (JArr [])) stockitem
             refresh)) w
      else w)"
  using RenderStockItems_snd [of ctx "stockItems (itemQuery w)" w]
  by (auto simp add: RollingStocktakeDashboardItem_def Let_def split: prod.splits sum.splits)

subsection \<open>The fetch and the events\<close>

lemma queryFn_snd:
  "snd (queryFn ctx w) =
     (case api ctx of None \<Rightarrow> w | Some get \<Rightarrow> call (api_get NEXT_ITEM_URL) w)"
  by (simp add: queryFn_def split: option.splits sum.splits)

text \<open>
  A rejected request is passed on to the caller of \<open>queryFn\<close>, the data-fetching library,
  after the one request; \<open>queryFn\<close> itself asks no second time. Whether the library calls
  \<open>queryFn\<close> again is its own matter, as are the flags it then reports.
\<close>

lemma queryFn_rejected:
  "api ctx = Some get \<Longrightarrow> get NEXT_ITEM_URL = Inl e \<Longrightarrow>
   queryFn ctx w = (Inl e, call (api_get NEXT_ITEM_URL) w)"
  by (simp add: queryFn_def)

lemma error_alert_static: "handlers error_alert = []"
  by (simp add: error_alert_def)

lemma exec_requests:
  "requests (exec ctx op w) =
     requests w @ (if op = RunQueryFn \<and> api ctx \<noteq> None then [NEXT_ITEM_URL] else [])"
proof (cases op)
  case Render
  then show ?thesis by (simp add: dashboard_snd requests_call)
next
  case (Click h)
  then show ?thesis
    by (cases h) (simp_all add: navigateToItem_def requests_call)
next
  case (HostCallback cb)
  then show ?thesis by (simp add: run_callback_def requests_call split: callback.splits)
next
  case RunQueryFn
  then show ?thesis by (auto simp add: queryFn_snd requests_call split: option.splits)
qed

lemma exec_itemQuery: "itemQuery (exec ctx op w) = itemQuery w"
proof (cases op)
  case Render
  then show ?thesis by (simp add: dashboard_snd itemQuery_call)
next
  case (Click h)
  then show ?thesis
    by (cases h) (simp_all add: navigateToItem_def itemQuery_call)
next
  case (HostCallback cb)
  then show ?thesis by (simp add: run_callback_def itemQuery_call split: callback.splits)
next
  case RunQueryFn
  then show ?thesis by (simp add: queryFn_snd itemQuery_call split: option.splits)
qed

subsection \<open>What is displayed\<close>

lemma render_rows_items:
  "list_all (\<lambda>i. \<not> nullish i) xs \<Longrightarrow>
   \<exists>rows. render_rows ctx xs = Inr rows \<and> map row_item rows = map Some xs \<and>
     list_all2 (\<lambda>r i. \<exists>row. RenderStockItem ctx i = Inr row \<and> r = Keyed (property i ''pk'') row)
       rows xs"
proof (induction xs)
  case Nil
  then show ?case by simp
next
  case (Cons i xs)
  from Cons.prems have i: "\<not> nullish i" and rest: "list_all (\<lambda>i. \<not> nullish i) xs"
    by simp_all
  from Cons.IH [OF rest] obtain rows where
    rows: "render_rows ctx xs = Inr rows" "map row_item rows = map Some xs"
      "list_all2 (\<lambda>r i. \<exists>row. RenderStockItem ctx i = Inr row \<and> r = Keyed (property i ''pk'') row)
         rows xs"
    by blast
  show ?case
    using rows i by (simp add: get_prop_Inr RenderStockItem_Inr)
qed

lemma dashboard_displays:
  assumes "\<not> isLoading (itemQuery w)" and "isSuccess (itemQuery w)"
    and "opt_prop (data (itemQuery w)) ''items'' = JArr xs"
    and "list_all (\<lambda>i. \<not> nullish i) xs"
  shows "\<exists>root. fst (RollingStocktakeDashboardItem ctx w) = Inr root \<and>
     displayed_items root = map Some xs \<and>
     list_all2 (\<lambda>r i. \<exists>row. RenderStockItem ctx i = Inr row \<and> r = Keyed (property i ''pk'') row)
       (dashboard_rows root) xs"
proof -
  from render_rows_items [OF assms(4), of ctx] obtain rows where
    rows: "render_rows ctx xs = Inr rows" "map row_item rows = map Some xs"
      "list_all2 (\<lambda>r i. \<exists>row. RenderStockItem ctx i = Inr row \<and> r = Keyed (property i ''pk'') row)
         rows xs"
    by blast
  have tr: "table_rows (items_table p rows) = rows" for p
    by (simp add: table_rows_def items_table_def)
  have hd: "concat (map table_rows (header ctx)) = []"
    by (simp add: table_rows_def header_def)
  have ld: "table_rows loader = []" "table_rows error_alert = []" "table_rows empty_alert = []"
    by (simp_all add: table_rows_def loader_def error_alert_def empty_alert_def)
  have hd': "table_rows x = []" if "x \<in> set (header ctx)" for x
    using that by (auto simp add: table_rows_def header_def)
  show ?thesis
    using assms(1-3) rows
    by (auto simp add: RollingStocktakeDashboardItem_def Let_def stockItems_JArr
        RenderStockItems_JArr dashboard_rows_def displayed_items_def tr hd hd' ld)
qed

subsection \<open>Invalidation and the query client\<close>

lemma invalidations_call:
  "invalidations (call c w) =
     invalidations w @ (case c of invalidateQueries key \<Rightarrow> [key] | _ \<Rightarrow> [])"
  by (simp add: invalidations_def call_def)

lemma exec_invalidations:
  "invalidations (exec ctx op w) =
     invalidations w @ (if op = HostCallback refresh then [[''next-item'']] else [])"
proof (cases op)
  case Render
  then show ?thesis by (simp add: dashboard_snd invalidations_call)
next
  case (Click h)
  then show ?thesis
    by (cases h) (simp_all add: navigateToItem_def invalidations_call)
next
  case (HostCallback cb)
  then show ?thesis
    by (cases cb) (simp add: run_callback_def invalidations_call)
next
  case RunQueryFn
  then show ?thesis by (simp add: queryFn_snd invalidations_call split: option.splits)
qed

lemma count_completed_eq:
  "count_completed ctx p w = fetch_query ctx (call (invalidateQueries [''next-item'']) w)"
  by (cases p) (simp add: count_completed_def run_callback_def Let_def calls_call invalidated_def
      itemQuery_options_def split: callback.splits)

lemma fetch_query_calls:
  "calls (fetch_query ctx w) =
     calls w @ (if api ctx = None then [] else [api_get NEXT_ITEM_URL])"
  by (auto simp add: fetch_query_def queryFn_def call_def get_prop_def
      split: option.splits sum.splits prod.splits)

lemma fetch_query_success:
  "api ctx = Some get \<Longrightarrow> get NEXT_ITEM_URL = Inr response \<Longrightarrow> \<not> nullish response \<Longrightarrow>
   itemQuery (fetch_query ctx w) =
     \<lparr>isLoading = False, isFetching = False, isError = False, isSuccess = True,
      data = property response ''data''\<rparr>"
  by (simp add: fetch_query_def queryFn_def get_prop_Inr)


section \<open>The claims\<close>

subsection \<open>C1: one state per fetch status\<close>

text \<open>
  C1, as the code has it. In each of the four fetch statuses the widget shows exactly one
  of the four states: the loading indicator while the first load runs, or while a fetch
  runs and the query has not succeeded; the error alert when no fetch runs and the query
  failed; the success-empty alert or the table with its button when no fetch runs and the
  query succeeded, by the list being empty or not. The states do exclude each other
  there, but not always: the condition of line 194 does not ask for \<open>!isFetching\<close>, so
  while a fetch runs over a result that already succeeded (the refresh button, or the
  invalidation after a count) the loading indicator is shown together with the
  success-empty alert or the table.
\<close>

theorem dashboard_states:
  assumes q: "q = itemQuery w"
  shows
    "(isLoading q \<or> isFetching q \<and> \<not> isSuccess q \<longrightarrow>
        rendered ctx w = Some [LoadingIndicator]) \<and>
     (\<not> isLoading q \<and> \<not> isFetching q \<and> isError q \<and> \<not> isSuccess q \<longrightarrow>
        rendered ctx w = Some [ErrorAlert]) \<and>
     (\<not> isLoading q \<and> \<not> isFetching q \<and> \<not> isError q \<and> isSuccess q \<and>
      stockItems q = JArr [] \<longrightarrow>
        rendered ctx w = Some [SuccessEmptyAlert]) \<and>
     (\<not> isLoading q \<and> \<not> isFetching q \<and> \<not> isError q \<and> isSuccess q \<and>
      stockItems q = JArr xs \<and> xs \<noteq> [] \<and> list_all (\<lambda>i. \<not> nullish i) xs \<longrightarrow>
        rendered ctx w = Some [ItemsTable]) \<and>
     (\<not> isLoading q \<and> isFetching q \<and> isSuccess q \<and>
      stockItems q = JArr xs \<and> list_all (\<lambda>i. \<not> nullish i) xs \<longrightarrow>
        rendered ctx w =
          Some [LoadingIndicator, if xs = [] then SuccessEmptyAlert else ItemsTable])"
proof -
  have loading: "isLoading q \<or> isFetching q \<and> \<not> isSuccess q \<Longrightarrow>
      rendered ctx w = Some [LoadingIndicator]"
    using q by (auto simp add: rendered_eq Let_def)
  have failed: "\<not> isLoading q \<and> \<not> isFetching q \<and> isError q \<and> \<not> isSuccess q \<Longrightarrow>
      rendered ctx w = Some [ErrorAlert]"
    using q by (simp add: rendered_eq Let_def)
  have success: "\<not> isLoading q \<Longrightarrow> isSuccess q \<Longrightarrow> stockItems q = JArr ys \<Longrightarrow>
      list_all (\<lambda>i. \<not> nullish i) ys \<Longrightarrow>
      rendered ctx w =
        Some ((if isFetching q then [LoadingIndicator] else [])
          @ (if \<not> isFetching q \<and> isError q then [ErrorAlert] else [])
          @ [if ys = [] then SuccessEmptyAlert else ItemsTable])" for ys
    using q body_views [of ys ctx w] by (auto simp add: rendered_eq Let_def)
  have empty: "\<not> isLoading q \<and> \<not> isFetching q \<and> \<not> isError q \<and> isSuccess q \<and>
      stockItems q = JArr [] \<Longrightarrow> rendered ctx w = Some [SuccessEmptyAlert]"
    using success [of "[]"] by simp
  have table: "\<not> isLoading q \<and> \<not> isFetching q \<and> \<not> isError q \<and> isSuccess q \<and>
      stockItems q = JArr xs \<and> xs \<noteq> [] \<and> list_all (\<lambda>i. \<not> nullish i) xs \<Longrightarrow>
      rendered ctx w = Some [ItemsTable]"
    using success [of xs] by simp
  have refetch: "\<not> isLoading q \<and> isFetching q \<and> isSuccess q \<and>
      stockItems q = JArr xs \<and> list_all (\<lambda>i. \<not> nullish i) xs \<Longrightarrow>
      rendered ctx w =
        Some [LoadingIndicator, if xs = [] then SuccessEmptyAlert else ItemsTable]"
    using success [of xs] by simp
  from loading failed empty table refetch show ?thesis by blast
qed

text \<open>The five cases at five results of the query.\<close>

theorem dashboard_states_witness:
  "rendered \<lparr>api = None, primaryColor = ''blue''\<rparr>
     \<lparr>itemQuery = \<lparr>isLoading = True, isFetching = True, isError = False, isSuccess = False,
        data = JUndefined\<rparr>, calls = []\<rparr> = Some [LoadingIndicator] \<and>
   rendered \<lparr>api = None, primaryColor = ''blue''\<rparr>
     \<lparr>itemQuery = \<lparr>isLoading = False, isFetching = False, isError = True, isSuccess = False,
        data = JUndefined\<rparr>, calls = []\<rparr> = Some [ErrorAlert] \<and>
   rendered \<lparr>api = None, primaryColor = ''blue''\<rparr>
     \<lparr>itemQuery = \<lparr>isLoading = False, isFetching = False, isError = False, isSuccess = True,
        data = JObj [(''items'', JArr [])]\<rparr>, calls = []\<rparr> = Some [SuccessEmptyAlert] \<and>
   rendered \<lparr>api = None, primaryColor = ''blue''\<rparr>
     \<lparr>itemQuery = \<lparr>isLoading = False, isFetching = False, isError = False, isSuccess = True,
        data = JObj [(''items'', JArr [JObj [(''pk'', JNum 1)]])]\<rparr>, calls = []\<rparr>
     = Some [ItemsTable] \<and>
   rendered \<lparr>api = None, primaryColor = ''blue''\<rparr>
     \<lparr>itemQuery = \<lparr>isLoading = False, isFetching = True, isError = False, isSuccess = True,
        data = JObj [(''items'', JArr [])]\<rparr>, calls = []\<rparr>
     = Some [LoadingIndicator, SuccessEmptyAlert]"
  using
    dashboard_states [OF refl, where ctx = "\<lparr>api = None, primaryColor = ''blue''\<rparr>"
      and w = "\<lparr>itemQuery = \<lparr>isLoading = True, isFetching = True, isError = False,
        isSuccess = False, data = JUndefined\<rparr>, calls = []\<rparr>" and xs = "[]"]
    dashboard_states [OF refl, where ctx = "\<lparr>api = None, primaryColor = ''blue''\<rparr>"
      and w = "\<lparr>itemQuery = \<lparr>isLoading = False, isFetching = False, isError = True,
        isSuccess = False, data = JUndefined\<rparr>, calls = []\<rparr>" and xs = "[]"]
    dashboard_states [OF refl, where ctx = "\<lparr>api = None, primaryColor = ''blue''\<rparr>"
      and w = "\<lparr>itemQuery = \<lparr>isLoading = False, isFetching = False, isError = False,
        isSuccess = True, data = JObj [(''items'', JArr [])]\<rparr>, calls = []\<rparr>" and xs = "[]"]
    dashboard_states [OF refl, where ctx = "\<lparr>api = None, primaryColor = ''blue''\<rparr>"
      and w = "\<lparr>itemQuery = \<lparr>isLoading = False, isFetching = False, isError = False,
        isSuccess = True, data = JObj [(''items'', JArr [JObj [(''pk'', JNum 1)]])]\<rparr>,
        calls = []\<rparr>" and xs = "[JObj [(''pk'', JNum 1)]]"]
    dashboard_states [OF refl, where ctx = "\<lparr>api = None, primaryColor = ''blue''\<rparr>"
      and w = "\<lparr>itemQuery = \<lparr>isLoading = False, isFetching = True, isError = False,
        isSuccess = True, data = JObj [(''items'', JArr [])]\<rparr>, calls = []\<rparr>" and xs = "[]"]
  by (simp add: stockItems_def nullish_or_def opt_prop_def)

text \<open>
  C1 as it was stated fails: with one item fetched and a refetch running, the widget
  shows the loading indicator and the table at the same time.
\<close>

theorem refetch_shows_two_states:
  "rendered \<lparr>api = None, primaryColor = ''blue''\<rparr>
     \<lparr>itemQuery = \<lparr>isLoading = False, isFetching = True, isError = False, isSuccess = True,
        data = JObj [(''items'', JArr [JObj [(''pk'', JNum 1)]])]\<rparr>,
      calls = []\<rparr>
   = Some [LoadingIndicator, ItemsTable]"
  by (simp add: rendered_eq stockItems_def nullish_or_def opt_prop_def RenderStockItems_JArr
      get_prop_def RenderStockItem_def view_of_items_table)

subsection \<open>C3: the refresh callback\<close>

text \<open>
  C3. Whatever the items, the widget hands the form factory a \<open>refresh\<close> callback whose
  whole effect, when the host runs it, is one call of \<open>invalidateQueries\<close> with the key
  \<open>['next-item']\<close>, which is the key the widget's query is registered under; no other
  operation of the widget invalidates anything. When the count completes, the query
  client answers the invalidation by fetching the list again: the calls are the
  invalidation and then the one request for the fixed path, and when the request brings
  a list of items, these are the items the widget displays from then on.
\<close>

theorem refresh_invalidates_next_item:
  "\<exists>p. calls (snd (RenderStockItems ctx items w)) = calls w @ [countStock p] \<and>
     run_callback (form_refresh p) w' =
       w'\<lparr>calls := calls w' @ [invalidateQueries [''next-item'']]\<rparr> \<and>
     queryKey itemQuery_options = [''next-item''] \<and>
     invalidations (exec ctx op w') =
       invalidations w' @ (if op = HostCallback (form_refresh p) then [[''next-item'']] else []) \<and>
     calls (count_completed ctx p w') =
       calls w' @ invalidateQueries [''next-item'']
         # (if api ctx = None then [] else [api_get ''/plugin/rolling-stocktake/next/'']) \<and>
     (api ctx = Some get \<and> get ''/plugin/rolling-stocktake/next/'' = Inr response \<and>
      \<not> nullish response \<and> opt_prop (property response ''data'') ''items'' = JArr ys \<and>
      list_all (\<lambda>i. \<not> nullish i) ys \<longrightarrow>
        (\<exists>root. fst (RollingStocktakeDashboardItem ctx (count_completed ctx p w')) = Inr root \<and>
           displayed_items root = map Some ys))"
proof -
  let ?p = "FormProps (js_or items (JArr [])) stockitem refresh"
  let ?w1 = "call (invalidateQueries [''next-item'']) w'"
  have a: "calls (snd (RenderStockItems ctx items w)) = calls w @ [countStock ?p]"
    by (simp add: RenderStockItems_snd calls_call)
  have b: "run_callback (form_refresh ?p) w' =
      w'\<lparr>calls := calls w' @ [invalidateQueries [''next-item'']]\<rparr>"
    by (simp add: run_callback_def call_def)
  have c: "queryKey itemQuery_options = [''next-item'']"
    by (simp add: itemQuery_options_def)
  have d: "invalidations (exec ctx op w') =
      invalidations w' @ (if op = HostCallback (form_refresh ?p) then [[''next-item'']] else [])"
    by (simp add: exec_invalidations)
  have e: "calls (count_completed ctx ?p w') =
      calls w' @ invalidateQueries [''next-item'']
        # (if api ctx = None then [] else [api_get ''/plugin/rolling-stocktake/next/''])"
    by (simp add: count_completed_eq fetch_query_calls calls_call NEXT_ITEM_URL_def)
  have f: "\<exists>root. fst (RollingStocktakeDashboardItem ctx (count_completed ctx ?p w')) = Inr root \<and>
      displayed_items root = map Some ys"
    if h: "api ctx = Some get \<and> get ''/plugin/rolling-stocktake/next/'' = Inr response \<and>
      \<not> nullish response \<and> opt_prop (property response ''data'') ''items'' = JArr ys \<and>
      list_all (\<lambda>i. \<not> nullish i) ys"
  proof -
    have q: "itemQuery (count_completed ctx ?p w') =
        \<lparr>isLoading = False, isFetching = False, isError = False, isSuccess = True,
         data = property response ''data''\<rparr>"
      using h fetch_query_success [of ctx get response ?w1]
      by (simp add: count_completed_eq NEXT_ITEM_URL_def)
    from h have ys: "list_all (\<lambda>i. \<not> nullish i) ys" by simp
    from dashboard_displays [of "count_completed ctx ?p w'" ys ctx] q h ys
    show ?thesis by auto
  qed
  from a b c d e f show ?thesis by blast
qed

text \<open>
  One item with key 1 is shown, the count completes, and the server now answers with one
  item with key 3.
\<close>

theorem refresh_invalidates_next_item_witness:
  "\<exists>p. calls (snd (RenderStockItems
         \<lparr>api = Some (\<lambda>u. Inr (JObj [(''data'', JObj [(''items'', JArr [JObj [(''pk'', JNum 3)]])])])),
          primaryColor = ''blue''\<rparr>
         (JArr [JObj [(''pk'', JNum 1)]])
         \<lparr>itemQuery = \<lparr>isLoading = False, isFetching = False, isError = False,
            isSuccess = True, data = JObj [(''items'', JArr [JObj [(''pk'', JNum 1)]])]\<rparr>,
          calls = []\<rparr>)) = [countStock p] \<and>
     calls (count_completed
         \<lparr>api = Some (\<lambda>u. Inr (JObj [(''data'', JObj [(''items'', JArr [JObj [(''pk'', JNum 3)]])])])),
          primaryColor = ''blue''\<rparr> p
         \<lparr>itemQuery = \<lparr>isLoading = False, isFetching = False, isError = False,
            isSuccess = True, data = JObj [(''items'', JArr [JObj [(''pk'', JNum 1)]])]\<rparr>,
          calls = []\<rparr>)
       = [invalidateQueries [''next-item''], api_get ''/plugin/rolling-stocktake/next/''] \<and>
     (\<exists>root. fst (RollingStocktakeDashboardItem
         \<lparr>api = Some (\<lambda>u. Inr (JObj [(''data'', JObj [(''items'', JArr [JObj [(''pk'', JNum 3)]])])])),
          primaryColor = ''blue''\<rparr>
         (count_completed
           \<lparr>api = Some (\<lambda>u. Inr (JObj [(''data'', JObj [(''items'', JArr [JObj [(''pk'', JNum 3)]])])])),
            primaryColor = ''blue''\<rparr> p
           \<lparr>itemQuery = \<lparr>isLoading = False, isFetching = False, isError = False,
              isSuccess = True, data = JObj [(''items'', JArr [JObj [(''pk'', JNum 1)]])]\<rparr>,
            calls = []\<rparr>)) = Inr root \<and>
        displayed_items root = [Some (JObj [(''pk'', JNum 3)])])"
proof -
  let ?response = "JObj [(''data'', JObj [(''items'', JArr [JObj [(''pk'', JNum 3)]])])]"
  let ?get = "\<lambda>u::string. Inr ?response :: error + jsval"
  let ?ctx = "\<lparr>api = Some ?get, primaryColor = ''blue''\<rparr>"
  let ?w = "\<lparr>itemQuery = \<lparr>isLoading = False, isFetching = False, isError = False,
      isSuccess = True, data = JObj [(''items'', JArr [JObj [(''pk'', JNum 1)]])]\<rparr>,
      calls = []\<rparr>"
  let ?ys = "[JObj [(''pk'', JNum 3)]]"
  have h: "api ?ctx = Some ?get \<and> ?get ''/plugin/rolling-stocktake/next/'' = Inr ?response \<and>
      \<not> nullish ?response \<and> opt_prop (property ?response ''data'') ''items'' = JArr ?ys \<and>
      list_all (\<lambda>i. \<not> nullish i) ?ys"
    by (simp add: opt_prop_def)
  from refresh_invalidates_next_item
    [where ctx = ?ctx and items = "JArr [JObj [(''pk'', JNum 1)]]" and w = ?w and w' = ?w
       and op = Render and get = ?get and response = ?response and ys = ?ys]
  obtain p where
    p1: "calls (snd (RenderStockItems ?ctx (JArr [JObj [(''pk'', JNum 1)]]) ?w))
        = calls ?w @ [countStock p]"
    and p2: "calls (count_completed ?ctx p ?w) =
        calls ?w @ invalidateQueries [''next-item'']
          # (if api ?ctx = None then [] else [api_get ''/plugin/rolling-stocktake/next/''])"
    and p3: "api ?ctx = Some ?get \<and> ?get ''/plugin/rolling-stocktake/next/'' = Inr ?response \<and>
        \<not> nullish ?response \<and> opt_prop (property ?response ''data'') ''items'' = JArr ?ys \<and>
        list_all (\<lambda>i. \<not> nullish i) ?ys \<longrightarrow>
        (\<exists>root. fst (RollingStocktakeDashboardItem ?ctx (count_completed ?ctx p ?w)) = Inr root \<and>
           displayed_items root = map Some ?ys)"
    by blast
  from p3 h obtain root where
    root: "fst (RollingStocktakeDashboardItem ?ctx (count_completed ?ctx p ?w)) = Inr root"
      "displayed_items root = map Some ?ys"
    by blast
  from p1 have q1: "calls (snd (RenderStockItems ?ctx (JArr [JObj [(''pk'', JNum 1)]]) ?w))
      = [countStock p]"
    by simp
  from p2 have q2: "calls (count_completed ?ctx p ?w)
      = [invalidateQueries [''next-item''], api_get ''/plugin/rolling-stocktake/next/'']"
    by simp
  from root(2) have q3: "displayed_items root = [Some (JObj [(''pk'', JNum 3)])]"
    by simp
  from q1 q2 root(1) q3 show ?thesis by blast
qed

subsection \<open>C4: the rows follow the response\<close>

text \<open>
  C4. When the query succeeded with a non-empty list of items (none of them \<open>null\<close> or
  \<open>undefined\<close>), the table body has one row per item, in the order of the list: the
  \<open>k\<close>-th row is the row rendered for the \<open>k\<close>-th item, under the key \<open>item.pk\<close>.
\<close>

theorem table_rows_in_order:
  assumes "\<not> isLoading (itemQuery w)" and "isSuccess (itemQuery w)"
    and "opt_prop (data (itemQuery w)) ''items'' = JArr xs"
    and "xs \<noteq> []" and "list_all (\<lambda>i. \<not> nullish i) xs"
  shows "\<exists>root. fst (RollingStocktakeDashboardItem ctx w) = Inr root \<and>
     length (dashboard_rows root) = length xs \<and>
     list_all2 (\<lambda>r i. \<exists>row. RenderStockItem ctx i = Inr row \<and> r = Keyed (property i ''pk'') row)
       (dashboard_rows root) xs"
proof -
  from render_rows_ok [OF assms(5), of ctx] obtain rows where
    rows: "render_rows ctx xs = Inr rows"
      "list_all2 (\<lambda>r i. \<exists>row. RenderStockItem ctx i = Inr row \<and> r = Keyed (property i ''pk'') row)
         rows xs"
    by blast
  have len: "length rows = length xs"
    using rows(2) by (rule list_all2_lengthD)
  have tr: "table_rows (items_table p rows) = rows" for p
    by (simp add: table_rows_def items_table_def)
  have hd: "concat (map table_rows (header ctx)) = []"
    by (simp add: table_rows_def header_def)
  have ld: "table_rows loader = []" "table_rows error_alert = []"
    by (simp_all add: table_rows_def loader_def error_alert_def)
  show ?thesis
    using assms(1-4) rows len
    by (simp add: RollingStocktakeDashboardItem_def Let_def stockItems_JArr
        RenderStockItems_JArr dashboard_rows_def tr hd ld)
qed

theorem table_rows_in_order_witness:
  "\<exists>root. fst (RollingStocktakeDashboardItem \<lparr>api = None, primaryColor = ''blue''\<rparr>
       \<lparr>itemQuery = \<lparr>isLoading = False, isFetching = False, isError = False, isSuccess = True,
          data = JObj [(''items'', JArr [JObj [(''pk'', JNum 2)], JObj [(''pk'', JNum 1)]])]\<rparr>,
        calls = []\<rparr>) = Inr root \<and>
     length (dashboard_rows root) = 2 \<and>
     list_all2 (\<lambda>r i. \<exists>row. RenderStockItem \<lparr>api = None, primaryColor = ''blue''\<rparr> i = Inr row \<and>
         r = Keyed (property i ''pk'') row)
       (dashboard_rows root) [JObj [(''pk'', JNum 2)], JObj [(''pk'', JNum 1)]]"
proof -
  let ?ctx = "\<lparr>api = None, primaryColor = ''blue''\<rparr>"
  let ?xs = "[JObj [(''pk'', JNum 2)], JObj [(''pk'', JNum 1)]]"
  let ?w = "\<lparr>itemQuery = \<lparr>isLoading = False, isFetching = False, isError = False,
      isSuccess = True, data = JObj [(''items'', JArr ?xs)]\<rparr>, calls = []\<rparr>"
  have h: "\<not> isLoading (itemQuery ?w)" "isSuccess (itemQuery ?w)"
    "opt_prop (data (itemQuery ?w)) ''items'' = JArr ?xs"
    "?xs \<noteq> []" "list_all (\<lambda>i. \<not> nullish i) ?xs"
    by (simp_all add: opt_prop_def)
  from table_rows_in_order [OF h, where ctx = ?ctx] obtain root where
    root: "fst (RollingStocktakeDashboardItem ?ctx ?w) = Inr root"
      "length (dashboard_rows root) = length ?xs"
      "list_all2 (\<lambda>r i. \<exists>row. RenderStockItem ?ctx i = Inr row \<and>
          r = Keyed (property i ''pk'') row) (dashboard_rows root) ?xs"
    by blast
  from root(2) have "length (dashboard_rows root) = 2" by simp
  with root(1,3) show ?thesis by blast
qed

subsection \<open>C5: one request\<close>

text \<open>
  C5. The only call of \<open>context.api\<close> the widget makes is \<open>get\<close> with the fixed path
  \<open>/plugin/rolling-stocktake/next/\<close>: one per run of \<open>queryFn\<close> (none when the context
  has no \<open>api\<close>), and none in a render, a click or the refresh callback. What \<open>queryFn\<close>
  returns is the \<open>data\<close> of the response, the list the widget works on is the \<open>items\<close>
  array of the query's data, and when the query's data is what \<open>queryFn\<close> returned, the
  items displayed, row by row, are the entries of that \<open>items\<close> array.
\<close>

theorem only_get_next_item:
  "requests (exec ctx op w) =
     requests w @ (if op = RunQueryFn \<and> api ctx \<noteq> None
       then [''/plugin/rolling-stocktake/next/''] else []) \<and>
   (api ctx = Some get \<and> get ''/plugin/rolling-stocktake/next/'' = Inr response \<and>
    \<not> nullish response \<longrightarrow>
      fst (queryFn ctx w) = Inr (property response ''data'')) \<and>
   (data q = JObj fs \<and> map_of fs ''items'' = Some (JArr xs) \<longrightarrow> stockItems q = JArr xs) \<and>
   (fst (queryFn ctx w0) = Inr body \<and> data (itemQuery w) = body \<and>
    \<not> isLoading (itemQuery w) \<and> isSuccess (itemQuery w) \<and>
    opt_prop body ''items'' = JArr xs \<and> list_all (\<lambda>i. \<not> nullish i) xs \<longrightarrow>
      (\<exists>root. fst (RollingStocktakeDashboardItem ctx w) = Inr root \<and>
         displayed_items root = map Some xs \<and>
         list_all2 (\<lambda>r i. \<exists>row. RenderStockItem ctx i = Inr row \<and>
             r = Keyed (property i ''pk'') row) (dashboard_rows root) xs))"
proof -
  have a: "requests (exec ctx op w) =
     requests w @ (if op = RunQueryFn \<and> api ctx \<noteq> None
       then [''/plugin/rolling-stocktake/next/''] else [])"
    using exec_requests [of ctx op w] by (simp add: NEXT_ITEM_URL_def)
  have b: "api ctx = Some get \<and> get ''/plugin/rolling-stocktake/next/'' = Inr response \<and>
    \<not> nullish response \<Longrightarrow> fst (queryFn ctx w) = Inr (property response ''data'')"
    by (simp add: queryFn_def NEXT_ITEM_URL_def get_prop_Inr)
  have c: "data q = JObj fs \<and> map_of fs ''items'' = Some (JArr xs) \<Longrightarrow> stockItems q = JArr xs"
    by (simp add: stockItems_def nullish_or_def opt_prop_def)
  have d: "fst (queryFn ctx w0) = Inr body \<and> data (itemQuery w) = body \<and>
    \<not> isLoading (itemQuery w) \<and> isSuccess (itemQuery w) \<and>
    opt_prop body ''items'' = JArr xs \<and> list_all (\<lambda>i. \<not> nullish i) xs \<Longrightarrow>
      (\<exists>root. fst (RollingStocktakeDashboardItem ctx w) = Inr root \<and>
         displayed_items root = map Some xs \<and>
         list_all2 (\<lambda>r i. \<exists>row. RenderStockItem ctx i = Inr row \<and>
             r = Keyed (property i ''pk'') row) (dashboard_rows root) xs)"
    using dashboard_displays [of w xs ctx] by simp
  from a b c d show ?thesis by blast
qed

text \<open>A response with one item.\<close>

theorem only_get_next_item_witness:
  "requests (exec \<lparr>api = Some (\<lambda>u. Inr (JObj [(''data'', JObj [(''items'', JArr [JObj [(''pk'', JNum 5)]])])])),
        primaryColor = ''blue''\<rparr> RunQueryFn
      \<lparr>itemQuery = \<lparr>isLoading = False, isFetching = False, isError = False, isSuccess = True,
         data = JObj [(''items'', JArr [JObj [(''pk'', JNum 5)]])]\<rparr>, calls = []\<rparr>)
     = [''/plugin/rolling-stocktake/next/''] \<and>
   fst (queryFn \<lparr>api = Some (\<lambda>u. Inr (JObj [(''data'', JObj [(''items'', JArr [JObj [(''pk'', JNum 5)]])])])),
        primaryColor = ''blue''\<rparr>
      \<lparr>itemQuery = \<lparr>isLoading = False, isFetching = False, isError = False, isSuccess = True,
         data = JObj [(''items'', JArr [JObj [(''pk'', JNum 5)]])]\<rparr>, calls = []\<rparr>)
     = Inr (JObj [(''items'', JArr [JObj [(''pk'', JNum 5)]])]) \<and>
   stockItems \<lparr>isLoading = False, isFetching = False, isError = False, isSuccess = True,
      data = JObj [(''items'', JArr [JObj [(''pk'', JNum 5)]])]\<rparr> = JArr [JObj [(''pk'', JNum 5)]] \<and>
   (\<exists>root. fst (RollingStocktakeDashboardItem
        \<lparr>api = Some (\<lambda>u. Inr (JObj [(''data'', JObj [(''items'', JArr [JObj [(''pk'', JNum 5)]])])])),
         primaryColor = ''blue''\<rparr>
        \<lparr>itemQuery = \<lparr>isLoading = False, isFetching = False, isError = False, isSuccess = True,
           data = JObj [(''items'', JArr [JObj [(''pk'', JNum 5)]])]\<rparr>, calls = []\<rparr>) = Inr root \<and>
      displayed_items root = [Some (JObj [(''pk'', JNum 5)])])"
proof -
  let ?body = "JObj [(''items'', JArr [JObj [(''pk'', JNum 5)]])]"
  let ?response = "JObj [(''data'', ?body)]"
  let ?get = "\<lambda>u::string. Inr ?response :: error + jsval"
  let ?ctx = "\<lparr>api = Some ?get, primaryColor = ''blue''\<rparr>"
  let ?q = "\<lparr>isLoading = False, isFetching = False, isError = False, isSuccess = True,
      data = ?body\<rparr>"
  let ?w = "\<lparr>itemQuery = ?q, calls = []\<rparr>"
  note inst = only_get_next_item [where ctx = ?ctx and op = RunQueryFn and w = ?w and w0 = ?w
      and get = ?get and response = ?response and q = ?q and fs = "[(''items'', JArr [JObj [(''pk'', JNum 5)]])]"
      and xs = "[JObj [(''pk'', JNum 5)]]" and body = ?body]
  have h2: "api ?ctx = Some ?get \<and> ?get ''/plugin/rolling-stocktake/next/'' = Inr ?response \<and>
      \<not> nullish ?response"
    by simp
  have h3: "data ?q = JObj [(''items'', JArr [JObj [(''pk'', JNum 5)]])] \<and>
      map_of [(''items'', JArr [JObj [(''pk'', JNum 5)]])] ''items'' = Some (JArr [JObj [(''pk'', JNum 5)]])"
    by simp
  have r1: "requests (exec ?ctx RunQueryFn ?w) = [''/plugin/rolling-stocktake/next/'']"
    using inst [THEN conjunct1] by (simp add: requests_def)
  have r2: "fst (queryFn ?ctx ?w) = Inr ?body"
    using inst [THEN conjunct2, THEN conjunct1, THEN mp, OF h2] by simp
  have r3: "stockItems ?q = JArr [JObj [(''pk'', JNum 5)]]"
    using inst [THEN conjunct2, THEN conjunct2, THEN conjunct1, THEN mp, OF h3] .
  have h4: "fst (queryFn ?ctx ?w) = Inr ?body \<and> data (itemQuery ?w) = ?body \<and>
      \<not> isLoading (itemQuery ?w) \<and> isSuccess (itemQuery ?w) \<and>
      opt_prop ?body ''items'' = JArr [JObj [(''pk'', JNum 5)]] \<and> list_all (\<lambda>i. \<not> nullish i) [JObj [(''pk'', JNum 5)]]"
    using r2 by (simp add: opt_prop_def)
  from inst [THEN conjunct2, THEN conjunct2, THEN conjunct2, THEN mp, OF h4]
  obtain root where root: "fst (RollingStocktakeDashboardItem ?ctx ?w) = Inr root"
      "displayed_items root = map Some [JObj [(''pk'', JNum 5)]]"
    by blast
  from root(2) have "displayed_items root = [Some (JObj [(''pk'', JNum 5)])]" by simp
  with r1 r2 r3 root(1) show ?thesis by blast
qed


subsection \<open>C6: the empty list\<close>

text \<open>
  C6. When the query succeeded and the \<open>items\<close> of its data are an empty array, or are
  missing, \<open>null\<close> or otherwise falsy (the data itself may be missing), the widget renders
  the alert titled \<open>All up to date!\<close> and neither the table nor the button.
\<close>

theorem empty_list_shows_alert:
  assumes "\<not> isLoading (itemQuery w)" and "isSuccess (itemQuery w)"
    and "\<not> truthy (opt_prop (data (itemQuery w)) ''items'') \<or>
         opt_prop (data (itemQuery w)) ''items'' = JArr []"
  shows "\<exists>root. fst (RollingStocktakeDashboardItem ctx w) = Inr root \<and>
     empty_alert \<in> set (children root) \<and>
     SuccessEmptyAlert \<in> set (views root) \<and> ItemsTable \<notin> set (views root) \<and>
     \<not> has_tag ''Table'' root \<and> \<not> has_tag ''Button'' root"
proof -
  let ?items = "stockItems (itemQuery w)"
  have falsy: "\<not> truthy ?items \<or> ?items = JArr []"
    using assms(3) by (auto simp add: stockItems_def nullish_or_def)
  have body: "fst (RenderStockItems ctx ?items w) = Inr empty_alert"
    using falsy by (auto simp add: RenderStockItems_falsy RenderStockItems_JArr)
  have r: "rendered ctx w =
      Some ((if isFetching (itemQuery w) then [LoadingIndicator] else [])
        @ (if \<not> isFetching (itemQuery w) \<and> isError (itemQuery w) then [ErrorAlert] else [])
        @ [SuccessEmptyAlert])"
    using assms(1,2) body by (simp add: rendered_eq Let_def view_of_empty_alert)
  have t: "\<not> has_tag ''Table'' empty_alert" "\<not> has_tag ''Button'' empty_alert"
    "\<not> has_tag ''Table'' loader" "\<not> has_tag ''Button'' loader"
    "\<not> has_tag ''Table'' error_alert" "\<not> has_tag ''Button'' error_alert"
    by (simp_all add: empty_alert_def loader_def error_alert_def)
  obtain b w' where bw: "RenderStockItems ctx ?items w = (b, w')"
    by (cases "RenderStockItems ctx ?items w")
  with body have b: "b = Inr empty_alert" by simp
  show ?thesis
    using assms(1,2) bw b r t has_tag_header [of ctx]
    by (auto simp add: rendered_def RollingStocktakeDashboardItem_def Let_def)
qed

text \<open>A successful response whose body has no \<open>items\<close> at all.\<close>

theorem empty_list_shows_alert_witness:
  "\<exists>root. fst (RollingStocktakeDashboardItem \<lparr>api = None, primaryColor = ''blue''\<rparr>
       \<lparr>itemQuery = \<lparr>isLoading = False, isFetching = False, isError = False, isSuccess = True,
          data = JObj []\<rparr>, calls = []\<rparr>) = Inr root \<and>
     empty_alert \<in> set (children root) \<and>
     SuccessEmptyAlert \<in> set (views root) \<and> ItemsTable \<notin> set (views root) \<and>
     \<not> has_tag ''Table'' root \<and> \<not> has_tag ''Button'' root"
  by (rule empty_list_shows_alert) (simp_all add: opt_prop_def)

subsection \<open>C7: the items are only read\<close>

text \<open>
  C7. No operation of the widget (a render, which renders the rows; a click on a row's
  view action; a click on the count button, which opens the form; the refresh callback;
  the fetch) changes the result of the query, so every fetched item keeps all its fields.
  Of an item the widget reads \<open>pk\<close>, \<open>location_detail\<close> and \<open>stocktake_date\<close> only: two
  items that agree on these get the same location cell and date cell, and a click on
  their view action has the same effect.
\<close>

theorem items_left_unchanged:
  "itemQuery (exec ctx op w) = itemQuery w \<and>
   (\<not> nullish a \<and> \<not> nullish b \<and> property a ''pk'' = property b ''pk'' \<and>
    property a ''location_detail'' = property b ''location_detail'' \<and>
    property a ''stocktake_date'' = property b ''stocktake_date'' \<longrightarrow>
      (\<exists>ra rb. RenderStockItem ctx a = Inr ra \<and> RenderStockItem ctx b = Inr rb \<and>
         cell 1 ra = cell 1 rb \<and> cell 2 ra = cell 2 rb) \<and>
      navigateToItem a w = navigateToItem b w)"
  by (simp add: exec_itemQuery RenderStockItem_Inr cell_def navigateToItem_def opt_prop_def)

theorem items_left_unchanged_witness:
  "data (itemQuery (exec \<lparr>api = None, primaryColor = ''blue''\<rparr>
      (Click (NavigateToItem (JObj [(''pk'', JNum 7), (''quantity'', JNum 3)])))
      \<lparr>itemQuery = \<lparr>isLoading = False, isFetching = False, isError = False, isSuccess = True,
         data = JObj [(''items'', JArr [JObj [(''pk'', JNum 7), (''quantity'', JNum 3)]])]\<rparr>,
       calls = []\<rparr>))
     = JObj [(''items'', JArr [JObj [(''pk'', JNum 7), (''quantity'', JNum 3)]])] \<and>
   navigateToItem (JObj [(''pk'', JNum 7), (''quantity'', JNum 3)])
      \<lparr>itemQuery = \<lparr>isLoading = False, isFetching = False, isError = False, isSuccess = True,
         data = JObj [(''items'', JArr [JObj [(''pk'', JNum 7), (''quantity'', JNum 3)]])]\<rparr>,
       calls = []\<rparr>
   = navigateToItem (JObj [(''pk'', JNum 7), (''quantity'', JNum 4)])
      \<lparr>itemQuery = \<lparr>isLoading = False, isFetching = False, isError = False, isSuccess = True,
         data = JObj [(''items'', JArr [JObj [(''pk'', JNum 7), (''quantity'', JNum 3)]])]\<rparr>,
       calls = []\<rparr>"
proof -
  let ?ctx = "\<lparr>api = None, primaryColor = ''blue''\<rparr>"
  let ?a = "JObj [(''pk'', JNum 7), (''quantity'', JNum 3)]"
  let ?b = "JObj [(''pk'', JNum 7), (''quantity'', JNum 4)]"
  let ?w = "\<lparr>itemQuery = \<lparr>isLoading = False, isFetching = False, isError = False,
      isSuccess = True, data = JObj [(''items'', JArr [?a])]\<rparr>, calls = []\<rparr>"
  note inst = items_left_unchanged [where ctx = ?ctx and op = "Click (NavigateToItem ?a)"
      and w = ?w and a = ?a and b = ?b]
  have same: "\<not> nullish ?a \<and> \<not> nullish ?b \<and> property ?a ''pk'' = property ?b ''pk'' \<and>
      property ?a ''location_detail'' = property ?b ''location_detail'' \<and>
      property ?a ''stocktake_date'' = property ?b ''stocktake_date''"
    by simp
  have frame: "itemQuery (exec ?ctx (Click (NavigateToItem ?a)) ?w) = itemQuery ?w"
    using inst by (rule conjunct1)
  have reads: "navigateToItem ?a ?w = navigateToItem ?b ?w"
    using inst [THEN conjunct2, THEN mp, OF same] by (rule conjunct2)
  have "data (itemQuery (exec ?ctx (Click (NavigateToItem ?a)) ?w)) = JObj [(''items'', JArr [?a])]"
    by (simp only: frame world.simps query_result.simps)
  with reads show ?thesis by blast
qed

subsection \<open>C8: no navigation without a key\<close>

text \<open>
  C8. For an item whose \<open>pk\<close> is missing or falsy, the only click handler of its row is
  its view action, and running it leaves the world as it was: \<open>context.navigate\<close> is not
  called.
\<close>

theorem view_item_without_pk_is_noop:
  assumes "\<not> truthy (opt_prop item ''pk'')"
  shows "run_handler (NavigateToItem item) w = w \<and>
     (\<forall>row. RenderStockItem ctx item = Inr row \<longrightarrow> handlers row = [NavigateToItem item])"
proof -
  have "handlers row = [NavigateToItem item]" if "RenderStockItem ctx item = Inr row" for row
  proof -
    have "\<not> nullish item"
      using that by (auto simp add: RenderStockItem_def get_prop_def split: if_splits)
    with that show ?thesis by (auto simp add: RenderStockItem_Inr)
  qed
  with assms show ?thesis by (simp add: navigateToItem_def)
qed

text \<open>An item with the key 0, clicked in a world with no calls so far.\<close>

theorem view_item_without_pk_is_noop_witness:
  "calls (run_handler (NavigateToItem (JObj [(''pk'', JNum 0)]))
      \<lparr>itemQuery = \<lparr>isLoading = False, isFetching = False, isError = False, isSuccess = True,
         data = JNull\<rparr>, calls = []\<rparr>) = [] \<and>
   (\<exists>row. RenderStockItem \<lparr>api = None, primaryColor = ''blue''\<rparr> (JObj [(''pk'', JNum 0)])
        = Inr row \<and>
      handlers row = [NavigateToItem (JObj [(''pk'', JNum 0)])])"
proof -
  let ?item = "JObj [(''pk'', JNum 0)]"
  let ?ctx = "\<lparr>api = None, primaryColor = ''blue''\<rparr>"
  let ?w = "\<lparr>itemQuery = \<lparr>isLoading = False, isFetching = False, isError = False,
      isSuccess = True, data = JNull\<rparr>, calls = []\<rparr>"
  have falsy: "\<not> truthy (opt_prop ?item ''pk'')"
    by (simp add: opt_prop_def)
  note inst = view_item_without_pk_is_noop [OF falsy, where w = ?w and ctx = ?ctx]
  from RenderStockItem_total [of ?item ?ctx] obtain row where
    row: "RenderStockItem ?ctx ?item = Inr row"
    by auto
  with inst have h: "handlers row = [NavigateToItem ?item]" by blast
  from inst have "calls (run_handler (NavigateToItem ?item) ?w) = []" by simp
  with row h show ?thesis by blast
qed

subsection \<open>C9: rows of items with missing fields\<close>

text \<open>
  C9. Every item that is a value with fields (neither \<open>null\<close> nor \<open>undefined\<close>) gets its
  row. When its \<open>location_detail\<close> is missing (or falsy) the location cell is the text
  \<open>No location\<close> and \<open>context.renderInstance\<close> is called for the item alone, not for a
  location; when its \<open>stocktake_date\<close> is missing (or falsy) the date cell is the text
  \<open>Never\<close>.
\<close>

theorem row_placeholders:
  assumes "\<not> nullish item"
  shows "\<exists>row. RenderStockItem ctx item = Inr row \<and>
     (\<not> truthy (property item ''location_detail'') \<longrightarrow>
        cell 1 row = [El ''Text'' [(''size'', AStr ''sm''), (''c'', AStr ''dimmed'')]
                        [Msg ''No location'']] \<and>
        instances row = [InstanceProps item stockitem JUndefined]) \<and>
     (\<not> truthy (property item ''stocktake_date'') \<longrightarrow>
        cell 2 row = [El ''Text'' [(''c'', AStr ''red''), (''size'', AStr ''sm'')]
                        [Msg ''Never'']])"
  using assms by (simp add: RenderStockItem_Inr cell_def)

text \<open>An item with a key and nothing else.\<close>

theorem row_placeholders_witness:
  "\<exists>row. RenderStockItem \<lparr>api = None, primaryColor = ''blue''\<rparr> (JObj [(''pk'', JNum 7)])
       = Inr row \<and>
     cell 1 row = [El ''Text'' [(''size'', AStr ''sm''), (''c'', AStr ''dimmed'')]
                        [Msg ''No location'']] \<and>
     instances row = [InstanceProps (JObj [(''pk'', JNum 7)]) stockitem JUndefined] \<and>
     cell 2 row = [El ''Text'' [(''c'', AStr ''red''), (''size'', AStr ''sm'')]
                        [Msg ''Never'']]"
  using row_placeholders [where item = "JObj [(''pk'', JNum 7)]"
      and ctx = "\<lparr>api = None, primaryColor = ''blue''\<rparr>"]
  by simp

subsection \<open>C10: the form gets the whole list\<close>

text \<open>
  C10. Rendering the items view calls the form factory once, with the whole list as
  \<open>items\<close>, whatever the list: also for the empty list, where the view is the alert and
  the form is not shown. In the widget the list is the \<open>items\<close> array of the query's data.
\<close>

theorem count_form_gets_full_list:
  "calls (snd (RenderStockItems ctx (JArr xs) w)) =
     calls w @ [countStock (FormProps (JArr xs) stockitem refresh)] \<and>
   fst (RenderStockItems ctx (JArr []) w) = Inr empty_alert \<and>
   calls (snd (RenderStockItems ctx (JArr []) w)) =
     calls w @ [countStock (FormProps (JArr []) stockitem refresh)] \<and>
   (\<not> isLoading (itemQuery w) \<and> isSuccess (itemQuery w) \<and>
    opt_prop (data (itemQuery w)) ''items'' = JArr xs \<longrightarrow>
      calls (snd (RollingStocktakeDashboardItem ctx w)) =
        calls w @ [countStock (FormProps (JArr xs) stockitem refresh)])"
  by (simp add: RenderStockItems_JArr calls_call dashboard_snd stockItems_JArr js_or_def)

theorem count_form_gets_full_list_witness:
  "calls (snd (RollingStocktakeDashboardItem \<lparr>api = None, primaryColor = ''blue''\<rparr>
       \<lparr>itemQuery = \<lparr>isLoading = False, isFetching = False, isError = False, isSuccess = True,
          data = JObj [(''items'', JArr [])]\<rparr>, calls = []\<rparr>))
     = [countStock (FormProps (JArr []) stockitem refresh)]"
  using count_form_gets_full_list
    [where ctx = "\<lparr>api = None, primaryColor = ''blue''\<rparr>"
      and w = "\<lparr>itemQuery = \<lparr>isLoading = False, isFetching = False, isError = False,
          isSuccess = True, data = JObj [(''items'', JArr [])]\<rparr>, calls = []\<rparr>"
      and xs = "[]"]
  by (simp add: opt_prop_def)

end
